theory Spec2Isabelle
  imports Complex_Main "HOL-Library.Multiset"
begin

section \<open>JavaScript numbers\<close>

text \<open>
  The component \<^verbatim>\<open>src/components/Chart/Chart.tsx\<close> computes with JavaScript numbers, which
  are IEEE 754 binary64 values. A number is modelled as the real it denotes, or one of
  the three special values. The two zeros are identified: the component never divides,
  and a zero used as a property key prints as \<^verbatim>\<open>"0"\<close> whatever its sign.
\<close>

datatype number = Finite real | NaN | PosInfinity | NegInfinity

text \<open>Rounding a real to the nearest integer, ties to the even one.\<close>

definition rne :: "real \<Rightarrow> int" where
  "rne q = (let f = \<lfloor>q\<rfloor>; d = q - of_int f in
     if d < 1/2 then f else if 1/2 < d then f + 1 else if even f then f else f + 1)"

text \<open>
  The exponent of the unit in the last place of the binary64 format at \<open>r\<close>: 53
  significant bits, and the least exponent \<open>-1022\<close> for the subnormal range.
\<close>

definition ulp_exp :: "real \<Rightarrow> int" where
  "ulp_exp r = max \<lfloor>log 2 \<bar>r\<bar>\<rfloor> (- 1022) - 52"

text \<open>
  Round to nearest, ties to even, as every arithmetic operation of the language does
  with its exact result. A result of magnitude \<open>2 ^ 1024\<close> or more is an infinity.
\<close>

definition round64 :: "real \<Rightarrow> number" where
  "round64 r = (if r = 0 then Finite 0 else
     let u = 2 powi (ulp_exp r); v = of_int (rne (r / u)) * u in
     if 2 ^ 1024 \<le> \<bar>v\<bar> then (if 0 < v then PosInfinity else NegInfinity) else Finite v)"

text \<open>The reals that are binary64 values: rounding leaves them as they are.\<close>

definition is_double :: "real \<Rightarrow> bool" where
  "is_double r \<longleftrightarrow> round64 r = Finite r"

text \<open>A numeric literal of the source denotes the double nearest to its decimal value.\<close>

definition literal :: "real \<Rightarrow> number" where
  "literal r = round64 r"

text \<open>The operators \<^verbatim>\<open>*\<close>, \<^verbatim>\<open>+\<close> and \<^verbatim>\<open>-\<close> on numbers.\<close>

fun js_mul :: "number \<Rightarrow> number \<Rightarrow> number" where
  "js_mul (Finite a) (Finite b) = round64 (a * b)"
| "js_mul NaN _ = NaN"
| "js_mul _ NaN = NaN"
| "js_mul (Finite a) PosInfinity =
     (if a = 0 then NaN else if 0 < a then PosInfinity else NegInfinity)"
| "js_mul (Finite a) NegInfinity =
     (if a = 0 then NaN else if 0 < a then NegInfinity else PosInfinity)"
| "js_mul PosInfinity (Finite b) =
     (if b = 0 then NaN else if 0 < b then PosInfinity else NegInfinity)"
| "js_mul NegInfinity (Finite b) =
     (if b = 0 then NaN else if 0 < b then NegInfinity else PosInfinity)"
| "js_mul PosInfinity PosInfinity = PosInfinity"
| "js_mul PosInfinity NegInfinity = NegInfinity"
| "js_mul NegInfinity PosInfinity = NegInfinity"
| "js_mul NegInfinity NegInfinity = PosInfinity"

fun js_add :: "number \<Rightarrow> number \<Rightarrow> number" where
  "js_add (Finite a) (Finite b) = round64 (a + b)"
| "js_add NaN _ = NaN"
| "js_add _ NaN = NaN"
| "js_add PosInfinity NegInfinity = NaN"
| "js_add NegInfinity PosInfinity = NaN"
| "js_add PosInfinity _ = PosInfinity"
| "js_add NegInfinity _ = NegInfinity"
| "js_add (Finite a) PosInfinity = PosInfinity"
| "js_add (Finite a) NegInfinity = NegInfinity"

fun js_neg :: "number \<Rightarrow> number" where
  "js_neg (Finite a) = Finite (- a)"
| "js_neg NaN = NaN"
| "js_neg PosInfinity = NegInfinity"
| "js_neg NegInfinity = PosInfinity"

definition js_sub :: "number \<Rightarrow> number \<Rightarrow> number" where
  "js_sub a b = js_add a (js_neg b)"

text \<open>\<^verbatim>\<open>Math.floor\<close>: the floor of a double is a double, so nothing is rounded.\<close>

fun Math_floor :: "number \<Rightarrow> number" where
  "Math_floor (Finite r) = Finite (of_int \<lfloor>r\<rfloor>)"
| "Math_floor n = n"

section \<open>JavaScript arrays\<close>

text \<open>
  An array is an object with a \<^verbatim>\<open>length\<close> and own properties. The arrays of
  \<^verbatim>\<open>getGrid\<close> are read and written at computed keys, \<^verbatim>\<open>grid[yIndex][xIndex] += 1\<close>,
  so their properties are kept as a map from the key to the value. A key is the number
  used in the brackets (the language turns it into a string, and distinct numbers give
  distinct strings). A key is an array index when it is an integer from \<open>0\<close> to
  \<open>2 ^ 32 - 2\<close>; writing at an array index at or beyond the length extends the length,
  and writing at any other key creates an ordinary property.
\<close>

record 'a jsarray =
  arr_length :: nat
  arr_props :: "number \<rightharpoonup> 'a"

definition array_index :: "number \<Rightarrow> nat option" where
  "array_index k = (case k of
     Finite r \<Rightarrow> if r = of_int \<lfloor>r\<rfloor> \<and> 0 \<le> r \<and> r < 2 ^ 32 - 1 then Some (nat \<lfloor>r\<rfloor>) else None
   | _ \<Rightarrow> None)"

text \<open>\<^verbatim>\<open>a[k] = v\<close>\<close>

definition arr_set :: "'a jsarray \<Rightarrow> number \<Rightarrow> 'a \<Rightarrow> 'a jsarray" where
  "arr_set a k v =
     \<lparr>arr_length = (case array_index k of
                      Some i \<Rightarrow> max (arr_length a) (Suc i)
                    | None \<Rightarrow> arr_length a),
      arr_props = (arr_props a)(k \<mapsto> v)\<rparr>"

text \<open>The dense array with the elements \<open>xs\<close>, in this order.\<close>

definition array_of :: "'a list \<Rightarrow> 'a jsarray" where
  "array_of xs =
     \<lparr>arr_length = length xs,
      arr_props = (\<lambda>k. case array_index k of
                         Some i \<Rightarrow> if i < length xs then Some (xs ! i) else None
                       | None \<Rightarrow> None)\<rparr>"

text \<open>\<^verbatim>\<open>Array.from({ length: n }, () => v)\<close>: a fresh dense array of \<open>n\<close> copies of \<open>v\<close>.\<close>

definition Array_from :: "nat \<Rightarrow> 'a \<Rightarrow> 'a jsarray" where
  "Array_from n v = array_of (replicate n v)"

text \<open>
  Iterating an array, as the spread \<^verbatim>\<open>...row\<close> does: the values at the indices below
  the length, in order. \<open>None\<close> is \<^verbatim>\<open>undefined\<close>, which is what a hole reads as.
\<close>

definition elements :: "'a jsarray \<Rightarrow> 'a option list" where
  "elements a = map (\<lambda>i. arr_props a (Finite (of_nat i))) [0..<arr_length a]"

section \<open>The occupancy grid\<close>

datatype Scope = LOCAL | GLOBAL

record SessionData =
  sd_x :: number
  sd_y :: number
  sd_scope :: Scope

datatype error = TypeError

type_synonym grid = "number jsarray jsarray"

text \<open>
  \<^verbatim>\<open>row[k] += 1\<close>: the old value is read (\<^verbatim>\<open>undefined\<close> when the row has no such
  property, and \<^verbatim>\<open>undefined + 1\<close> is \<open>NaN\<close>), one is added and the sum is written back.
\<close>

definition increment :: "number jsarray \<Rightarrow> number \<Rightarrow> number jsarray" where
  "increment row k =
     arr_set row k (js_add (case arr_props row k of None \<Rightarrow> NaN | Some v \<Rightarrow> v) (literal 1))"

text \<open>
  The callback of \<^verbatim>\<open>data.forEach\<close> in \<^verbatim>\<open>getGrid\<close>. When \<^verbatim>\<open>grid[yIndex]\<close> is
  \<^verbatim>\<open>undefined\<close>, reading its property \<^verbatim>\<open>xIndex\<close> throws a \<^verbatim>\<open>TypeError\<close>. Otherwise the
  row object is updated in place; the rows are distinct objects, so the model writes the
  new row back at the key it was read from.
\<close>

definition bin :: "SessionData \<Rightarrow> grid \<Rightarrow> error + grid" where
  "bin d g =
     (let xIndex = Math_floor (js_mul (sd_x d) (literal 100));
          yIndex = Math_floor (js_mul (sd_y d) (literal 100))
      in case arr_props g yIndex of
           None \<Rightarrow> Inl TypeError
         | Some row \<Rightarrow> Inr (g\<lparr>arr_props := (arr_props g)(yIndex \<mapsto> increment row xIndex)\<rparr>))"

text \<open>\<^verbatim>\<open>forEach\<close> over a dense array: an exception of the callback ends the loop.\<close>

fun forEach :: "('a \<Rightarrow> 's \<Rightarrow> error + 's) \<Rightarrow> 'a list \<Rightarrow> 's \<Rightarrow> error + 's" where
  "forEach f [] s = Inr s"
| "forEach f (d # ds) s = (case f d s of Inl e \<Rightarrow> Inl e | Inr s' \<Rightarrow> forEach f ds s')"

definition getGrid :: "SessionData list \<Rightarrow> error + grid" where
  "getGrid data = forEach bin data (Array_from 100 (Array_from 100 (literal 0)))"

text \<open>
  \<^verbatim>\<open>flattenGrid\<close>: \<^verbatim>\<open>grid.map\<close> visits the indices of \<^verbatim>\<open>grid\<close> that hold a row, in
  order, and \<^verbatim>\<open>flatGrid.push(...row)\<close> appends what iterating the row yields.
  \<^verbatim>\<open>flatGrid\<close> is only pushed to, so it is dense and is modelled by the list of its
  elements.
\<close>

definition flattenGrid :: "grid \<Rightarrow> number option list" where
  "flattenGrid g = concat (map elements (List.map_filter id (elements g)))"

text \<open>A coordinate in the half-open unit interval: a double \<open>r\<close> with \<open>0 \<le> r < 1\<close>.\<close>

definition in_unit :: "number \<Rightarrow> bool" where
  "in_unit n = (case n of Finite r \<Rightarrow> is_double r \<and> 0 \<le> r \<and> r < 1 | _ \<Rightarrow> False)"

text \<open>
  The grid that holds the counts \<open>m\<close>, row by row: a dense array of dense rows of
  non-negative integers, with no other property.
\<close>

definition count_row :: "nat list \<Rightarrow> number jsarray" where
  "count_row cs = array_of (map (\<lambda>c. Finite (real c)) cs)"

definition count_grid :: "nat list list \<Rightarrow> grid" where
  "count_grid m = array_of (map count_row m)"

text \<open>The dense grid whose cells are the finite numbers \<open>m\<close>, row by row.\<close>

definition number_grid :: "real list list \<Rightarrow> grid" where
  "number_grid m = array_of (map (\<lambda>row. array_of (map Finite row)) m)"

text \<open>
  The value of an element of a flattened grid, for sums over it: that of a finite
  number. The grids that are summed hold finite numbers only.
\<close>

definition cell_value :: "number option \<Rightarrow> real" where
  "cell_value c = (case c of Some (Finite v) \<Rightarrow> v | _ \<Rightarrow> 0)"

text \<open>
  Modelled from the spec: the reshaping with known \<open>R\<close> that the specification names as
  the inverse of the flattening. The component has no such function; this one follows
  the specification's words: the sequence is cut into consecutive rows of length \<open>R\<close>.
\<close>

function reshape :: "nat \<Rightarrow> 'a list \<Rightarrow> 'a list list" where
  "reshape R xs = (if R = 0 \<or> xs = [] then [] else take R xs # reshape R (drop R xs))"
  by pat_completeness auto
termination
  by (relation "measure (\<lambda>(R, xs). length xs)") auto

declare reshape.simps [simp del]

section \<open>The visual parameters\<close>

text \<open>
  \<^verbatim>\<open>parseFloat\<close>: leading white space is skipped, the longest prefix that is a decimal
  literal (a sign, \<^verbatim>\<open>Infinity\<close> or digits with an optional fraction and exponent) is
  read and its value is rounded; without such a prefix the result is \<open>NaN\<close>. Strings are
  taken as ASCII: the white space characters beyond it are not skipped.
\<close>

definition is_space :: "char \<Rightarrow> bool" where
  "is_space c \<longleftrightarrow> c \<in> set [CHR '' '', CHR 0x09, CHR 0x0A, CHR 0x0B, CHR 0x0C, CHR 0x0D]"

definition is_digit :: "char \<Rightarrow> bool" where
  "is_digit c \<longleftrightarrow> c \<in> set ''0123456789''"

definition digits_value :: "string \<Rightarrow> nat" where
  "digits_value ds = foldl (\<lambda>n c. 10 * n + (of_char c - 48)) 0 ds"

definition read_sign :: "string \<Rightarrow> bool \<times> string" where
  "read_sign t = (case t of
     [] \<Rightarrow> (False, [])
   | c # cs \<Rightarrow> if c = CHR ''-'' then (True, cs) else if c = CHR ''+'' then (False, cs) else (False, t))"

definition exponent_part :: "string \<Rightarrow> int" where
  "exponent_part t = (case t of
     [] \<Rightarrow> 0
   | c # cs \<Rightarrow>
       if c = CHR ''e'' \<or> c = CHR ''E'' then
         (let (neg, r) = read_sign cs; ds = takeWhile is_digit r
          in if ds = [] then 0 else if neg then - int (digits_value ds) else int (digits_value ds))
       else 0)"

definition parseFloat :: "string \<Rightarrow> number" where
  "parseFloat s =
     (let (neg, t) = read_sign (dropWhile is_space s) in
      if take 8 t = ''Infinity'' then (if neg then NegInfinity else PosInfinity)
      else
        let ip = takeWhile is_digit t;
            t2 = dropWhile is_digit t;
            dot = (t2 \<noteq> [] \<and> hd t2 = CHR ''.'');
            fp = (if dot then takeWhile is_digit (tl t2) else []);
            t3 = (if dot then dropWhile is_digit (tl t2) else t2)
        in if ip = [] \<and> fp = [] then NaN
           else
             let m = real (digits_value (ip @ fp)) * 10 powi (exponent_part t3 - int (length fp))
             in round64 (if neg then - m else m))"

text \<open>
  The state of the component: the two datasets (\<open>None\<close> is \<^verbatim>\<open>undefined\<close>) and the four
  visual parameters, with the initial values given to \<^verbatim>\<open>useState\<close>.
\<close>

record ChartState =
  localData :: "SessionData list option"
  globalData :: "SessionData list option"
  displayPoints :: bool
  opacity :: number
  bandwidth :: number
  skew :: number

definition initialState :: ChartState where
  "initialState =
     \<lparr>localData = Some [], globalData = Some [], displayPoints = False,
      opacity = literal 5, bandwidth = literal 20, skew = literal 0\<rparr>"

text \<open>A change event, of which the handlers read \<^verbatim>\<open>event.target.value\<close> only.\<close>

record ChangeEvent =
  target_value :: string

definition togglePoints :: "ChartState \<Rightarrow> ChartState" where
  "togglePoints s = s\<lparr>displayPoints := \<not> displayPoints s\<rparr>"

definition handleOpacityChange :: "ChangeEvent \<Rightarrow> ChartState \<Rightarrow> ChartState" where
  "handleOpacityChange event s =
     (let newOpacity = parseFloat (target_value event) in s\<lparr>opacity := newOpacity\<rparr>)"

definition handleBandwidthChange :: "ChangeEvent \<Rightarrow> ChartState \<Rightarrow> ChartState" where
  "handleBandwidthChange event s =
     (let newBandwidth = parseFloat (target_value event) in s\<lparr>bandwidth := newBandwidth\<rparr>)"

definition handleSkewChange :: "ChangeEvent \<Rightarrow> ChartState \<Rightarrow> ChartState" where
  "handleSkewChange event s =
     (let newSkew = parseFloat (target_value event) in s\<lparr>skew := newSkew\<rparr>)"

text \<open>
  The ranges of the three sliders (their \<^verbatim>\<open>min\<close> and \<^verbatim>\<open>max\<close> attributes), which are
  the ranges the specification declares for the parameters.
\<close>

definition in_range :: "real \<Rightarrow> real \<Rightarrow> number \<Rightarrow> bool" where
  "in_range lo hi n = (case n of Finite r \<Rightarrow> lo \<le> r \<and> r \<le> hi | _ \<Rightarrow> False)"

definition params_in_range :: "ChartState \<Rightarrow> bool" where
  "params_in_range s \<longleftrightarrow>
     in_range 0 1 (opacity s) \<and> in_range 10 80 (bandwidth s) \<and> in_range (- 1) 1 (skew s)"

section \<open>The emotion catalog\<close>

record Emotion =
  em_name :: string
  em_color :: "(number \<times> number \<times> number) option"
  em_hsl :: "(number \<times> number \<times> number) option"
  em_position :: "number \<times> number"

definition emotions :: "Emotion list" where
  "emotions = [
     \<lparr>em_name = ''joy'', em_color = Some (literal 255, literal 248, literal 77),
      em_hsl = None, em_position = (literal 0.97, literal 0.56)\<rparr>,
     \<lparr>em_name = ''excited'', em_color = Some (literal 242, literal 136, literal 38),
      em_hsl = None, em_position = (literal 0.845, literal 0.86)\<rparr>,
     \<lparr>em_name = ''alarmed'', em_color = Some (literal 210, literal 37, literal 25),
      em_hsl = Some (literal 4, literal 0.79, literal 0.46),
      em_position = (literal 0.46, literal 0.945)\<rparr>,
     \<lparr>em_name = ''annoyed'', em_color = Some (literal 182, literal 18, literal 67),
      em_hsl = Some (literal 342, literal 0.82, literal 0.39),
      em_position = (literal 0.28, literal 0.83)\<rparr>,
     \<lparr>em_name = ''anxious'', em_color = Some (literal 239, literal 92, literal 180),
      em_hsl = None, em_position = (literal 0.14, literal 0.105)\<rparr>,
     \<lparr>em_name = ''bored'', em_color = Some (literal 99, literal 26, literal 192),
      em_hsl = None, em_position = (literal 0.33, literal 0.105)\<rparr>,
     \<lparr>em_name = ''serious'', em_color = Some (literal 43, literal 48, literal 170),
      em_hsl = None, em_position = (literal 0.61, literal 0.17)\<rparr>,
     \<lparr>em_name = ''relaxed'', em_color = Some (literal 26, literal 179, literal 192),
      em_hsl = None, em_position = (literal 0.855, literal 0.17)\<rparr>,
     \<lparr>em_name = ''neutral'', em_color = Some (literal 128, literal 128, literal 128),
      em_hsl = None, em_position = (literal 0.5, literal 0.5)\<rparr>]"

text \<open>
  \<^verbatim>\<open>toRgb\<close> builds its string with a template literal, which converts each number to
  a string. That conversion of the language is the parameter \<open>str\<close>.
\<close>

definition toRgb :: "(number \<Rightarrow> string) \<Rightarrow> number \<times> number \<times> number \<Rightarrow> string" where
  "toRgb str color =
     (case color of (r, g, b) \<Rightarrow> ''rgb('' @ str r @ '', '' @ str g @ '', '' @ str b @ '')'')"

section \<open>The marks of the plot\<close>

text \<open>
  A mark is the call that makes it, with its data and its options. The options are the
  object literal of the source, key by key; an option given as a function of an emotion
  is kept as a function.
\<close>

datatype jsprim = Num number | Str string

datatype option_value = Val jsprim | Fn "Emotion \<Rightarrow> error + jsprim"

type_synonym options = "(string \<times> option_value) list"

datatype plot_data = Sessions "SessionData list" | Emotions "Emotion list"

datatype mark =
    Plot_frame
  | Plot_density plot_data options
  | Plot_dot plot_data options
  | Plot_text plot_data options

text \<open>
  \<^verbatim>\<open>toRgb(d.color!)\<close>: the assertion \<^verbatim>\<open>!\<close> is erased when the source is compiled, and
  \<^verbatim>\<open>toRgb\<close> destructures its argument, which throws a \<^verbatim>\<open>TypeError\<close> on \<^verbatim>\<open>undefined\<close>.
\<close>

definition emotion_fill :: "(number \<Rightarrow> string) \<Rightarrow> Emotion \<Rightarrow> error + jsprim" where
  "emotion_fill str d =
     (case em_color d of None \<Rightarrow> Inl TypeError | Some c \<Rightarrow> Inr (Str (toRgb str c)))"

text \<open>
  The array \<^verbatim>\<open>marks\<close> handed to \<^verbatim>\<open>Plot.plot\<close>, for the datasets \<open>l\<close> (local) and
  \<open>g\<close> (global) and the parameters of the state. Its entries are named here, in the
  order of the source: the frame, \<^verbatim>\<open>Plot.density(globalData, ...)\<close>,
  \<^verbatim>\<open>Plot.density(localData, ...)\<close>, the conditional \<^verbatim>\<open>Plot.dot(localData, ...)\<close>,
  \<^verbatim>\<open>Plot.text(emotions, ...)\<close> and \<^verbatim>\<open>Plot.dot(emotions, ...)\<close>. \<open>None\<close> is the
  \<^verbatim>\<open>null\<close> of the conditional entry.
\<close>

definition global_density :: "SessionData list \<Rightarrow> ChartState \<Rightarrow> mark" where
  "global_density g s = Plot_density (Sessions g) [
     (''weight'', Val (Num (literal 0.2))),
     (''x'', Val (Str ''x'')),
     (''y'', Val (Str ''y'')),
     (''bandwidth'', Val (Num (bandwidth s))),
     (''stroke'', Val (Str ''density'')),
     (''strokeOpacity'', Val (Num (js_sub (opacity s) (skew s)))),
     (''thresholds'', Val (Num (literal 100)))]"

definition local_density :: "SessionData list \<Rightarrow> ChartState \<Rightarrow> mark" where
  "local_density l s = Plot_density (Sessions l) [
     (''x'', Val (Str ''x'')),
     (''y'', Val (Str ''y'')),
     (''opacity'', Val (Num (literal 1))),
     (''bandwidth'', Val (Num (bandwidth s))),
     (''fill'', Val (Str ''density'')),
     (''fillOpacity'', Val (Num (js_add (opacity s) (skew s)))),
     (''stroke'', Val (Str ''density'')),
     (''strokeOpacity'', Val (Num (js_add (opacity s) (skew s)))),
     (''thresholds'', Val (Num (literal 100)))]"

definition point_overlay :: "SessionData list \<Rightarrow> mark" where
  "point_overlay l = Plot_dot (Sessions l) [
     (''x'', Val (Str ''x'')),
     (''y'', Val (Str ''y'')),
     (''fill'', Val (Str ''white'')),
     (''stroke'', Val (Str ''white'')),
     (''strokeOpacity'', Val (Num (literal 0.5))),
     (''fillOpacity'', Val (Num (literal 0.2))),
     (''r'', Val (Num (literal 1.5)))]"

definition emotion_text :: mark where
  "emotion_text = Plot_text (Emotions emotions) [
     (''x'', Fn (\<lambda>d. Inr (Num (fst (em_position d))))),
     (''y'', Fn (\<lambda>d. Inr (Num (snd (em_position d))))),
     (''text'', Fn (\<lambda>d. Inr (Str (em_name d)))),
     (''lineAnchor'', Val (Str ''bottom'')),
     (''dy'', Val (Num (literal (- 8))))]"

definition emotion_dots :: "(number \<Rightarrow> string) \<Rightarrow> mark" where
  "emotion_dots str = Plot_dot (Emotions emotions) [
     (''x'', Fn (\<lambda>d. Inr (Num (fst (em_position d))))),
     (''y'', Fn (\<lambda>d. Inr (Num (snd (em_position d))))),
     (''fill'', Fn (emotion_fill str))]"

definition marks :: "(number \<Rightarrow> string) \<Rightarrow> SessionData list \<Rightarrow> SessionData list \<Rightarrow> ChartState \<Rightarrow> mark option list" where
  "marks str l g s = [
     Some Plot_frame,
     Some (global_density g s),
     Some (local_density l s),
     (if displayPoints s then Some (point_overlay l) else None),
     Some emotion_text,
     Some (emotion_dots str)]"

text \<open>The data and the options a mark was made with.\<close>

fun mark_data :: "mark \<Rightarrow> plot_data option" where
  "mark_data Plot_frame = None"
| "mark_data (Plot_density d os) = Some d"
| "mark_data (Plot_dot d os) = Some d"
| "mark_data (Plot_text d os) = Some d"

fun mark_options :: "mark \<Rightarrow> options" where
  "mark_options Plot_frame = []"
| "mark_options (Plot_density d os) = os"
| "mark_options (Plot_dot d os) = os"
| "mark_options (Plot_text d os) = os"

definition mark_option :: "mark \<Rightarrow> string \<Rightarrow> option_value option" where
  "mark_option m k = map_of (mark_options m) k"

text \<open>
  The effect that builds the plot returns at once while a dataset is \<^verbatim>\<open>undefined\<close>.
\<close>

definition plot_effect :: "(number \<Rightarrow> string) \<Rightarrow> ChartState \<Rightarrow> mark option list option" where
  "plot_effect str s =
     (case localData s of
        None \<Rightarrow> None
      | Some l \<Rightarrow> (case globalData s of None \<Rightarrow> None | Some g \<Rightarrow> Some (marks str l g s)))"

text \<open>The layers of the plot: the library drops the \<^verbatim>\<open>null\<close> entries of \<^verbatim>\<open>marks\<close>.\<close>

definition layers :: "mark option list \<Rightarrow> mark list" where
  "layers ms = List.map_filter id ms"

section \<open>Rounding\<close>

lemma rne_of_int: "rne (of_int n) = n"
  by (simp add: rne_def)

lemma rne_upper: "of_int (rne q) \<le> q + 1/2"
  unfolding rne_def Let_def by (auto; linarith)

lemma rne_lower: "q - 1/2 \<le> of_int (rne q)"
  unfolding rne_def Let_def by (auto; linarith)

lemma powr2_int: "(2::real) powr (real_of_int k) = 2 powi k"
  by (simp add: powr_real_of_int')

lemma floor_log2_iff:
  assumes "r \<noteq> 0"
  shows "\<lfloor>log 2 \<bar>r\<bar>\<rfloor> = k \<longleftrightarrow> 2 powi k \<le> \<bar>r\<bar> \<and> \<bar>r\<bar> < 2 powi (k + 1)"
proof -
  have pos: "0 < \<bar>r\<bar>" using assms by simp
  have step: "(2::real) powr (real_of_int k + 1) = 2 powi (k + 1)"
    using powr2_int [of "k + 1"] by simp
  show ?thesis
    using floor_log_eq_powr_iff [OF pos, of 2 k] by (simp add: powr2_int step)
qed

lemma ulp_exp_eq:
  assumes "2 powi k \<le> \<bar>r\<bar>" and "\<bar>r\<bar> < 2 powi (k + 1)"
  shows "ulp_exp r = max k (- 1022) - 52"
proof -
  have "0 < \<bar>r\<bar>"
    using assms(1) zero_less_power_int [of "2::real" k] by linarith
  then have "r \<noteq> 0" by simp
  then show ?thesis
    unfolding ulp_exp_def using floor_log2_iff [of r k] assms by simp
qed

lemma round64_of_int:
  assumes "\<bar>n\<bar> < 2 ^ 53"
  shows "round64 (of_int n) = Finite (of_int n)"
proof (cases "n = 0")
  case True
  then show ?thesis by (simp add: round64_def)
next
  case False
  define r :: real where "r = of_int n"
  define e where "e = \<lfloor>log 2 \<bar>r\<bar>\<rfloor>"
  have r0: "r \<noteq> 0" using False by (simp add: r_def)
  have lo: "2 powi e \<le> \<bar>r\<bar>" and hi: "\<bar>r\<bar> < 2 powi (e + 1)"
    using floor_log2_iff [OF r0, of e] by (simp_all add: e_def)
  have r1: "1 \<le> \<bar>r\<bar>" using False by (simp add: r_def)
  have r53: "\<bar>r\<bar> < 2 ^ 53"
    using assms unfolding r_def by (metis of_int_abs of_int_less_numeral_power_cancel_iff)
  have e0: "0 \<le> e"
  proof (rule ccontr)
    assume "\<not> 0 \<le> e"
    then have "e + 1 \<le> 0" by simp
    then have "(2::real) powi (e + 1) \<le> 2 powi 0"
      by (intro power_int_increasing) simp_all
    with hi r1 show False by simp
  qed
  have e52: "e \<le> 52"
  proof (rule ccontr)
    assume "\<not> e \<le> 52"
    then have "53 \<le> e" by simp
    then have "(2::real) powi 53 \<le> 2 powi e"
      by (intro power_int_increasing) simp_all
    with lo r53 show False by simp
  qed
  define m where "m = nat (52 - e)"
  have ue: "ulp_exp r = - int m"
    unfolding ulp_exp_def m_def using e0 e52 by (simp add: e_def)
  have u: "(2::real) powi (ulp_exp r) = 1 / 2 ^ m"
    unfolding ue by (simp add: power_int_minus field_simps)
  have q: "r / (2 powi (ulp_exp r)) = of_int (n * 2 ^ m)"
    unfolding u by (simp add: r_def)
  have v: "of_int (rne (r / (2 powi (ulp_exp r)))) * (2::real) powi (ulp_exp r) = r"
    unfolding q rne_of_int unfolding u by (simp add: r_def)
  have "(2::real) ^ 53 \<le> 2 ^ 1024"
    by (rule power_increasing) simp_all
  with r53 have "\<bar>r\<bar> < 2 ^ 1024" by linarith
  then show ?thesis
    using r0 unfolding round64_def Let_def v r_def [symmetric] by simp
qed

lemma double_below_one:
  assumes "is_double x" and "x < 1"
  shows "x \<le> 1 - 1 / 2 ^ 53"
proof (cases "x < 1/2")
  case True
  have "(1::real) / 2 ^ 53 \<le> 1 / 2" by simp
  with True show ?thesis by linarith
next
  case False
  then have x0: "x \<noteq> 0" and ax: "\<bar>x\<bar> = x" by simp_all
  have "(2::real) powi (- 1) \<le> \<bar>x\<bar>" and "\<bar>x\<bar> < 2 powi (- 1 + 1)"
    using False assms(2) by (simp_all add: power_int_minus)
  then have ue: "ulp_exp x = - 53"
    using ulp_exp_eq [of "- 1" x] by simp
  have u: "(2::real) powi (- 53) = 1 / 2 ^ 53"
    by (simp add: power_int_minus field_simps)
  define k where "k = rne (x / (1 / 2 ^ 53))"
  have "round64 x = Finite x" using assms(1) by (simp add: is_double_def)
  then have xk: "of_int k * (1 / 2 ^ 53) = x"
    unfolding round64_def Let_def ue u k_def using x0 by (simp split: if_splits)
  then have "real_of_int k = x * 2 ^ 53" by simp
  also have "\<dots> < 1 * 2 ^ 53"
    using assms(2) by (intro mult_strict_right_mono) simp_all
  finally have "k < 2 ^ 53" by simp
  then have "k \<le> 2 ^ 53 - 1" by simp
  then have "real_of_int k \<le> real_of_int (2 ^ 53 - 1)" by (simp only: of_int_le_iff)
  then have "real_of_int k \<le> 2 ^ 53 - 1" by simp
  then have "real_of_int k * (1 / 2 ^ 53) \<le> (2 ^ 53 - 1) * (1 / 2 ^ 53)"
    by (intro mult_right_mono) simp_all
  then show ?thesis unfolding xk by (simp add: field_simps)
qed

lemma round64_times_100:
  assumes "is_double x" and "0 \<le> x" and "x < 1"
  shows "\<exists>v. round64 (x * 100) = Finite v \<and> 0 \<le> v \<and> v < 100"
proof (cases "x = 0")
  case True
  then show ?thesis by (simp add: round64_def)
next
  case False
  define r where "r = x * 100"
  have r0: "r \<noteq> 0" and rpos: "0 < r" and ar: "\<bar>r\<bar> = r"
    using False assms(2) by (simp_all add: r_def)
  have rle: "r \<le> 100 - 100 / 2 ^ 53"
    using double_below_one [OF assms(1,3)] by (simp add: r_def)
  define e where "e = \<lfloor>log 2 \<bar>r\<bar>\<rfloor>"
  have lo: "2 powi e \<le> r"
    using floor_log2_iff [OF r0, of e] ar by (simp add: e_def)
  have e6: "e \<le> 6"
  proof (rule ccontr)
    assume "\<not> e \<le> 6"
    then have "7 \<le> e" by simp
    then have "(2::real) powi 7 \<le> 2 powi e"
      by (intro power_int_increasing) simp_all
    with lo rle show False by simp
  qed
  define m where "m = nat (- ulp_exp r)"
  have ue: "ulp_exp r = - int m" and m46: "46 \<le> m"
    unfolding m_def ulp_exp_def e_def [symmetric] using e6 by simp_all
  have u: "(2::real) powi (ulp_exp r) = 1 / 2 ^ m"
    unfolding ue by (simp add: power_int_minus field_simps)
  define k where "k = rne (r / (1 / 2 ^ m))"
  have p46: "(2::real) ^ 46 \<le> 2 ^ m"
    using m46 by (intro power_increasing) simp_all
  have "r * 2 ^ m \<le> (100 - 100 / 2 ^ 53) * 2 ^ m"
    using rle by (intro mult_right_mono) simp_all
  also have "\<dots> = 100 * 2 ^ m - (100 / 2 ^ 53) * 2 ^ m"
    by (simp add: algebra_simps)
  also have "\<dots> \<le> 100 * 2 ^ m - (100 / 2 ^ 53) * 2 ^ 46"
    using p46 by simp
  also have "\<dots> < 100 * 2 ^ m - 1 / 2" by simp
  finally have q: "r / (1 / 2 ^ m) < 100 * 2 ^ m - 1 / 2" by simp
  have "real_of_int k < 100 * 2 ^ m"
    using rne_upper [of "r / (1 / 2 ^ m)"] q unfolding k_def by linarith
  then have "real_of_int k < real_of_int (100 * 2 ^ m)" by simp
  then have "k < 100 * 2 ^ m" by (simp only: of_int_less_iff)
  then have "k \<le> 100 * 2 ^ m - 1" by simp
  then have "real_of_int k \<le> real_of_int (100 * 2 ^ m - 1)" by (simp only: of_int_le_iff)
  then have kle: "real_of_int k \<le> 100 * 2 ^ m - 1" by simp
  have "0 < r / (1 / 2 ^ m)" using rpos by simp
  then have "- 1 < real_of_int k"
    using rne_lower [of "r / (1 / 2 ^ m)"] unfolding k_def by linarith
  then have "- 1 < k" by linarith
  then have k0: "0 \<le> real_of_int k" by simp
  define v where "v = real_of_int k * (1 / 2 ^ m)"
  have v0: "0 \<le> v" unfolding v_def using k0 by simp
  have "v \<le> (100 * 2 ^ m - 1) * (1 / 2 ^ m)"
    unfolding v_def using kle by (intro mult_right_mono) simp_all
  also have "\<dots> = 100 - 1 / 2 ^ m" by (simp add: field_simps)
  also have "\<dots> < 100" by simp
  finally have v100: "v < 100" .
  have "(100::real) \<le> 2 ^ 1024"
    using power_increasing [of 7 1024 "2::real"] by simp
  with v0 v100 have "\<not> 2 ^ 1024 \<le> \<bar>v\<bar>" by simp
  then have "round64 r = Finite v"
    unfolding round64_def Let_def u v_def k_def using r0 by simp
  with v0 v100 show ?thesis unfolding r_def by blast
qed


lemma literal_of_int: "\<bar>n\<bar> < 2 ^ 53 \<Longrightarrow> literal (of_int n) = Finite (of_int n)"
  unfolding literal_def by (rule round64_of_int)

lemma literal_0: "literal 0 = Finite 0"
  using literal_of_int [of 0] by simp

lemma literal_1: "literal 1 = Finite 1"
  using literal_of_int [of 1] by simp

lemma literal_100: "literal 100 = Finite 100"
  using literal_of_int [of 100] by simp

lemma array_index_nat: "i < 2 ^ 32 - 1 \<Longrightarrow> array_index (Finite (real i)) = Some i"
proof -
  assume "i < 2 ^ 32 - 1"
  then have "real i < real (2 ^ 32 - 1)" by (simp only: of_nat_less_iff)
  then have "real i < 2 ^ 32 - 1" by simp
  then show ?thesis by (simp add: array_index_def)
qed

lemma array_index_SomeD: "array_index k = Some i \<Longrightarrow> k = Finite (real i)"
proof -
  assume a: "array_index k = Some i"
  then obtain r where k: "k = Finite r" by (cases k) (simp_all add: array_index_def)
  from a k have r: "r = of_int \<lfloor>r\<rfloor>" and r0: "0 \<le> r" and i: "i = nat \<lfloor>r\<rfloor>"
    by (simp_all add: array_index_def split: if_splits)
  have "real i = of_int \<lfloor>r\<rfloor>" using i r0 by simp
  with r k show ?thesis by simp
qed

lemma array_index_bound: "array_index k = Some i \<Longrightarrow> i < 2 ^ 32 - 1"
proof -
  assume a: "array_index k = Some i"
  have k: "k = Finite (real i)" using a by (rule array_index_SomeD)
  from a have "real i < 2 ^ 32 - 1"
    unfolding k by (simp add: array_index_def split: if_splits)
  then have "real i < real (2 ^ 32 - 1)" by simp
  then show ?thesis by (simp only: of_nat_less_iff)
qed

lemma arr_props_array_of:
  "i < length xs \<Longrightarrow> i < 2 ^ 32 - 1 \<Longrightarrow> arr_props (array_of xs) (Finite (real i)) = Some (xs ! i)"
  by (simp add: array_of_def array_index_nat)

lemma array_of_update:
  assumes "i < length xs" and "i < 2 ^ 32 - 1"
  shows "(array_of xs)\<lparr>arr_props := (arr_props (array_of xs))(Finite (real i) \<mapsto> v)\<rparr> = array_of (xs[i := v])"
proof -
  have "(arr_props (array_of xs))(Finite (real i) \<mapsto> v) = arr_props (array_of (xs[i := v]))"
  proof
    fix k
    show "((arr_props (array_of xs))(Finite (real i) \<mapsto> v)) k = arr_props (array_of (xs[i := v])) k"
    proof (cases "array_index k")
      case None
      then have "k \<noteq> Finite (real i)" using array_index_nat [OF assms(2)] by auto
      with None show ?thesis by (simp add: array_of_def)
    next
      case (Some j)
      then have k: "k = Finite (real j)" by (rule array_index_SomeD)
      show ?thesis using Some assms(1) unfolding k by (simp add: array_of_def nth_list_update)
    qed
  qed
  then show ?thesis by (simp add: array_of_def)
qed

lemma arr_set_array_of:
  assumes "i < length xs" and "i < 2 ^ 32 - 1"
  shows "arr_set (array_of xs) (Finite (real i)) v = array_of (xs[i := v])"
proof -
  have "arr_set (array_of xs) (Finite (real i)) v
      = (array_of xs)\<lparr>arr_props := (arr_props (array_of xs))(Finite (real i) \<mapsto> v)\<rparr>"
    using assms by (simp add: arr_set_def array_index_nat array_of_def max_def)
  then show ?thesis using array_of_update [OF assms] by simp
qed

lemma elements_array_of:
  assumes "length xs \<le> 2 ^ 32 - 1"
  shows "elements (array_of xs) = map Some xs"
proof (rule nth_equalityI)
  show "length (elements (array_of xs)) = length (map Some xs)"
    by (simp add: elements_def array_of_def)
next
  fix i
  assume "i < length (elements (array_of xs))"
  then have i: "i < length xs" by (simp add: elements_def array_of_def)
  then have "i < 2 ^ 32 - 1" using assms by linarith
  then have "arr_props (array_of xs) (Finite (real i)) = Some (xs ! i)"
    using i by (rule arr_props_array_of [rotated])
  then show "elements (array_of xs) ! i = map Some xs ! i"
    using i by (simp add: elements_def array_of_def)
qed

lemma map_filter_id_Some: "List.map_filter id (map Some xs) = xs"
  by (induction xs) simp_all

lemma flattenGrid_dense:
  assumes "length rows \<le> 2 ^ 32 - 1"
  shows "flattenGrid (array_of rows) = concat (map elements rows)"
  unfolding flattenGrid_def elements_array_of [OF assms] map_filter_id_Some ..

lemma index_in_unit:
  assumes "in_unit n"
  shows "\<exists>i<100. Math_floor (js_mul n (literal 100)) = Finite (real i)"
proof -
  from assms obtain r where n: "n = Finite r" and r: "is_double r" "0 \<le> r" "r < 1"
    by (cases n) (simp_all add: in_unit_def)
  from round64_times_100 [OF r] obtain v
    where v: "round64 (r * 100) = Finite v" "0 \<le> v" "v < 100" by blast
  define i where "i = nat \<lfloor>v\<rfloor>"
  have f0: "0 \<le> \<lfloor>v\<rfloor>" using v(2) by simp
  have f1: "\<lfloor>v\<rfloor> < 100" using v(3) by (simp add: floor_less_iff)
  have ii: "int i = \<lfloor>v\<rfloor>" using f0 by (simp add: i_def)
  have "real i = of_int \<lfloor>v\<rfloor>" using f0 by (simp add: i_def)
  moreover have "i < 100" using f1 ii by linarith
  ultimately show ?thesis
    unfolding n literal_100 using v(1) by auto
qed

lemma add_one:
  assumes "Suc c < 2 ^ 53"
  shows "js_add (Finite (real c)) (literal 1) = Finite (real (Suc c))"
proof -
  have "int (Suc c) < 2 ^ 53"
    using assms by (simp only: of_nat_less_numeral_power_cancel_iff)
  then have "\<bar>int c + 1\<bar> < 2 ^ 53" by simp
  then have "round64 (of_int (int c + 1)) = Finite (of_int (int c + 1))"
    by (rule round64_of_int)
  then show ?thesis by (simp add: literal_1 add.commute)
qed

lemma cell_le_total:
  assumes "i < length m" and "j < length (m ! i)"
  shows "m ! i ! j \<le> sum_list (map sum_list (m :: nat list list))"
proof -
  have "m ! i ! j \<le> sum_list (m ! i)"
    using assms(2) by (intro member_le_sum_list) simp_all
  also have "\<dots> \<le> sum_list (map sum_list m)"
    using assms(1) by (intro member_le_sum_list) simp_all
  finally show ?thesis .
qed

lemma total_update:
  assumes "i < length m" and "j < length (m ! i)"
  shows "sum_list (map sum_list (m[i := (m ! i)[j := Suc (m ! i ! j)]]))
       = Suc (sum_list (map sum_list (m :: nat list list)))"
proof -
  have row: "sum_list ((m ! i)[j := Suc (m ! i ! j)]) = Suc (sum_list (m ! i))"
    using assms(2) member_le_sum_list [of "m ! i ! j" "m ! i"]
    by (simp add: sum_list_update)
  have "sum_list (m ! i) \<le> sum_list (map sum_list m)"
    using assms(1) by (intro member_le_sum_list) simp_all
  then show ?thesis
    using assms(1) by (simp add: map_update sum_list_update row)
qed

lemma increment_count_row:
  assumes "j < length cs" and "length cs = 100" and "Suc (cs ! j) < 2 ^ 53"
  shows "increment (count_row cs) (Finite (real j)) = count_row (cs[j := Suc (cs ! j)])"
proof -
  have j32: "j < 2 ^ 32 - 1" using assms(1,2) by simp
  have "arr_props (count_row cs) (Finite (real j)) = Some (Finite (real (cs ! j)))"
    unfolding count_row_def using arr_props_array_of [of j "map (\<lambda>c. Finite (real c)) cs"] assms(1) j32
    by simp
  then show ?thesis
    unfolding increment_def count_row_def
    using arr_set_array_of [of j "map (\<lambda>c. Finite (real c)) cs"] assms(1) j32 add_one [OF assms(3)]
    by (simp add: map_update)
qed

lemma bin_count_grid:
  assumes "length m = 100" and "\<forall>row\<in>set m. length row = 100"
    and "in_unit (sd_x d)" and "in_unit (sd_y d)"
    and "Suc (sum_list (map sum_list m)) < 2 ^ 53"
  shows "\<exists>i j. i < 100 \<and> j < 100 \<and>
           bin d (count_grid m) = Inr (count_grid (m[i := (m ! i)[j := Suc (m ! i ! j)]]))"
proof -
  from index_in_unit [OF assms(3)] obtain j
    where j: "j < 100" "Math_floor (js_mul (sd_x d) (literal 100)) = Finite (real j)" by blast
  from index_in_unit [OF assms(4)] obtain i
    where i: "i < 100" "Math_floor (js_mul (sd_y d) (literal 100)) = Finite (real i)" by blast
  have il: "i < length m" using i(1) assms(1) by simp
  have i32: "i < 2 ^ 32 - 1" using i(1) by simp
  have len: "length (m ! i) = 100" using assms(2) il by simp
  have jl: "j < length (m ! i)" using j(1) len by simp
  have "m ! i ! j \<le> sum_list (map sum_list m)" using il jl by (rule cell_le_total)
  with assms(5) have c: "Suc (m ! i ! j) < 2 ^ 53" by linarith
  have get: "arr_props (count_grid m) (Finite (real i)) = Some (count_row (m ! i))"
    unfolding count_grid_def using arr_props_array_of [of i "map count_row m"] il i32 by simp
  have inc: "increment (count_row (m ! i)) (Finite (real j)) = count_row ((m ! i)[j := Suc (m ! i ! j)])"
    using jl len c by (rule increment_count_row)
  have upd: "(count_grid m)\<lparr>arr_props := (arr_props (count_grid m))(Finite (real i) \<mapsto> v)\<rparr>
      = array_of ((map count_row m)[i := v])" for v
    unfolding count_grid_def using array_of_update [of i "map count_row m"] il i32 by simp
  have "bin d (count_grid m) = Inr (count_grid (m[i := (m ! i)[j := Suc (m ! i ! j)]]))"
    by (simp add: bin_def Let_def i(2) j(2) get inc upd) (simp add: count_grid_def map_update)
  with i(1) j(1) show ?thesis by blast
qed

lemma forEach_count_grid:
  assumes "length m = 100" and "\<forall>row\<in>set m. length row = 100"
    and "\<forall>d\<in>set data. in_unit (sd_x d) \<and> in_unit (sd_y d)"
    and "sum_list (map sum_list m) + length data < 2 ^ 53"
  shows "\<exists>m'. forEach bin data (count_grid m) = Inr (count_grid m') \<and> length m' = 100 \<and>
           (\<forall>row\<in>set m'. length row = 100) \<and>
           sum_list (map sum_list m') = sum_list (map sum_list m) + length data"
  using assms
proof (induction data arbitrary: m)
  case Nil
  then show ?case by auto
next
  case (Cons d ds)
  have small: "Suc (sum_list (map sum_list m)) < 2 ^ 53" using Cons.prems(4) by simp
  from bin_count_grid [OF Cons.prems(1,2) _ _ small, of d] Cons.prems(3)
  obtain i j where ij: "i < 100" "j < 100"
    and step: "bin d (count_grid m) = Inr (count_grid (m[i := (m ! i)[j := Suc (m ! i ! j)]]))"
    by auto
  define m1 where "m1 = m[i := (m ! i)[j := Suc (m ! i ! j)]]"
  have il: "i < length m" using ij(1) Cons.prems(1) by simp
  have jl: "j < length (m ! i)" using ij(2) Cons.prems(2) il by simp
  have l1: "length m1 = 100" using Cons.prems(1) by (simp add: m1_def)
  have r1: "\<forall>row\<in>set m1. length row = 100"
  proof
    fix row assume "row \<in> set m1"
    then have "row \<in> insert ((m ! i)[j := Suc (m ! i ! j)]) (set m)"
      unfolding m1_def using set_update_subset_insert by fastforce
    then show "length row = 100" using Cons.prems(2) il by auto
  qed
  have t1: "sum_list (map sum_list m1) = Suc (sum_list (map sum_list m))"
    unfolding m1_def using il jl by (rule total_update)
  have "\<exists>m'. forEach bin ds (count_grid m1) = Inr (count_grid m') \<and> length m' = 100 \<and>
           (\<forall>row\<in>set m'. length row = 100) \<and>
           sum_list (map sum_list m') = sum_list (map sum_list m1) + length ds"
    using Cons.prems(3,4) by (intro Cons.IH l1 r1) (simp_all add: t1)
  then show ?case
    using step unfolding m1_def [symmetric] by (simp add: t1)
qed

lemma initial_grid:
  "Array_from 100 (Array_from 100 (literal 0)) = count_grid (replicate 100 (replicate 100 0))"
  by (simp add: Array_from_def count_grid_def count_row_def literal_0)

lemma getGrid_unit:
  assumes "\<forall>d\<in>set data. in_unit (sd_x d) \<and> in_unit (sd_y d)" and "length data < 2 ^ 53"
  shows "\<exists>m. getGrid data = Inr (count_grid m) \<and> length m = 100 \<and>
           (\<forall>row\<in>set m. length row = 100) \<and> sum_list (map sum_list m) = length data"
proof -
  have "\<exists>m'. forEach bin data (count_grid (replicate 100 (replicate 100 0))) = Inr (count_grid m') \<and>
           length m' = 100 \<and> (\<forall>row\<in>set m'. length row = 100) \<and>
           sum_list (map sum_list m')
             = sum_list (map sum_list (replicate 100 (replicate 100 (0::nat)))) + length data"
    using assms by (intro forEach_count_grid) (simp_all add: sum_list_replicate)
  then show ?thesis
    unfolding getGrid_def initial_grid by (simp add: sum_list_replicate)
qed

lemma getGrid_Nil: "getGrid [] = Inr (count_grid (replicate 100 (replicate 100 0)))"
  unfolding getGrid_def initial_grid by simp

lemma round64_dyadic:
  assumes "\<bar>n\<bar> < 2 ^ 53" and "- 1074 \<le> e" and "e \<le> 971"
  shows "round64 (of_int n * 2 powi e) = Finite (of_int n * 2 powi e)"
proof (cases "n = 0")
  case True
  then show ?thesis by (simp add: round64_def)
next
  case False
  define r :: real where "r = of_int n * 2 powi e"
  have p: "(0::real) < 2 powi e" by (rule zero_less_power_int) simp
  have r0: "r \<noteq> 0" using False p by (simp add: r_def)
  define E where "E = \<lfloor>log 2 \<bar>r\<bar>\<rfloor>"
  have lo: "2 powi E \<le> \<bar>r\<bar>"
    using floor_log2_iff [OF r0, of E] by (simp add: E_def)
  have "\<bar>real_of_int n\<bar> < 2 ^ 53"
    using assms(1) by (metis of_int_abs of_int_less_numeral_power_cancel_iff)
  then have "\<bar>real_of_int n\<bar> * 2 powi e < 2 ^ 53 * 2 powi e"
    using p by (intro mult_strict_right_mono)
  then have hi: "\<bar>r\<bar> < 2 powi (e + 53)"
    using p by (simp add: r_def abs_mult power_int_add mult.commute)
  have E52: "E \<le> e + 52"
  proof (rule ccontr)
    assume "\<not> E \<le> e + 52"
    then have "e + 53 \<le> E" by simp
    then have "(2::real) powi (e + 53) \<le> 2 powi E"
      by (intro power_int_increasing) simp_all
    with lo hi show False by simp
  qed
  define d where "d = nat (e - ulp_exp r)"
  have ue: "ulp_exp r \<le> e"
    unfolding ulp_exp_def E_def [symmetric] using E52 assms(2) by simp
  then have e_eq: "e = ulp_exp r + int d" by (simp add: d_def)
  define u :: real where "u = 2 powi (ulp_exp r)"
  have u: "0 < u" unfolding u_def by (rule zero_less_power_int) simp
  have "(2::real) powi e = 2 powi (ulp_exp r + int d)" using e_eq by simp
  then have split: "(2::real) powi e = u * 2 ^ d"
    by (simp add: power_int_add u_def)
  have r_eq: "r = of_int (n * 2 ^ d) * u"
    by (simp add: r_def split)
  then have q: "r / u = of_int (n * 2 ^ d)"
    using u by simp
  have "of_int (rne (r / u)) * u = r"
    unfolding q rne_of_int using r_eq by simp
  then have v: "of_int (rne (r / 2 powi (ulp_exp r))) * (2::real) powi (ulp_exp r) = r"
    by (simp add: u_def)
  have "e + 53 \<le> 1024" using assms(3) by simp
  then have "(2::real) powi (e + 53) \<le> 2 powi 1024"
    by (intro power_int_increasing) simp_all
  with hi have "\<bar>r\<bar> < 2 ^ 1024" by simp
  then show ?thesis
    using r0 unfolding round64_def Let_def v r_def [symmetric] by simp
qed

lemma is_double_dyadic:
  "\<bar>n\<bar> < 2 ^ 53 \<Longrightarrow> - 1074 \<le> e \<Longrightarrow> e \<le> 971 \<Longrightarrow> is_double (of_int n * 2 powi e)"
  unfolding is_double_def by (rule round64_dyadic)

lemma round64_eval:
  assumes "2 powi k \<le> \<bar>r\<bar>" and "\<bar>r\<bar> < 2 powi (k + 1)" and "- 1022 \<le> k"
    and "rne (r / 2 powi (k - 52)) = n" and "\<bar>n\<bar> \<le> 2 ^ 53" and "k \<le> 1022"
  shows "round64 r = Finite (of_int n * 2 powi (k - 52))"
proof -
  have "0 < \<bar>r\<bar>"
    using assms(1) zero_less_power_int [of "2::real" k] by linarith
  then have r0: "r \<noteq> 0" by simp
  have ue: "ulp_exp r = k - 52"
    using ulp_exp_eq [OF assms(1,2)] assms(3) by simp
  have "\<bar>real_of_int n\<bar> \<le> 2 ^ 53"
    using assms(5) by (metis of_int_abs of_int_le_numeral_power_cancel_iff)
  moreover have p: "(0::real) < 2 powi (k - 52)" by (rule zero_less_power_int) simp
  ultimately have "\<bar>real_of_int n\<bar> * 2 powi (k - 52) \<le> 2 ^ 53 * 2 powi (k - 52)"
    by (intro mult_right_mono) simp_all
  also have "\<dots> = 2 powi (k + 1)"
    by (simp add: power_int_add power_int_diff)
  also have "\<dots> \<le> 2 powi 1023"
    using assms(6) by (intro power_int_increasing) simp_all
  also have "\<dots> < 2 powi 1024"
    by (intro power_int_strict_increasing) simp_all
  finally have "\<bar>real_of_int n * 2 powi (k - 52)\<bar> < 2 ^ 1024"
    using p by (simp add: abs_mult)
  then show ?thesis
    using r0 unfolding round64_def Let_def ue assms(4) by simp
qed

lemma literal_half: "literal (1/2) = Finite (1/2)"
  unfolding literal_def using round64_dyadic [of 1 "- 1"] by (simp add: power_int_minus)

lemma literal_095: "literal 0.95 = Finite (8556839292003942 * 2 powi (- 53))"
  unfolding literal_def
  using round64_eval [of "- 1" "95 / 100" 8556839292003942]
  by (simp add: rne_def power_int_minus Let_def)

section \<open>Evaluating the grid\<close>

lemma in_unit_095: "in_unit (literal 0.95)"
  unfolding literal_095 in_unit_def
  using is_double_dyadic [of 8556839292003942 "- 53"]
  by (simp add: power_int_minus)

lemma zero_row_props:
  "arr_props (count_grid (replicate 100 (replicate 100 0))) (Finite (real i))
     = (if i < 100 then Some (count_row (replicate 100 0)) else None)"
proof (cases "i < 100")
  case True
  then have "i < 2 ^ 32 - 1" by simp
  then show ?thesis
    using True arr_props_array_of [of i "map count_row (replicate 100 (replicate 100 0))"]
    by (simp add: count_grid_def)
next
  case False
  then show ?thesis
    by (simp add: count_grid_def array_of_def split: option.splits)
      (metis array_index_SomeD number.inject of_nat_eq_iff)
qed

lemma index_of_one: "Math_floor (js_mul (literal 1) (literal 100)) = Finite 100"
  using round64_of_int [of 100] by (simp add: literal_1 literal_100)

text \<open>
  The example of the specification: a coordinate \<^verbatim>\<open>0.95\<close> falls in the cell of index
  \<open>95\<close>. The double \<open>0.95\<close> is below \<open>95 / 100\<close>; its product with \<open>100\<close> is rounded
  up to \<open>95\<close>.
\<close>

lemma index_of_095: "Math_floor (js_mul (literal 0.95) (literal 100)) = Finite 95"
proof -
  have "round64 (8556839292003942 * 2 powi (- 53) * 100) = Finite (6685030696878080 * 2 powi (- 46))"
    using round64_eval [of 6 "8556839292003942 * 2 powi (- 53) * 100" 6685030696878080]
    by (simp add: rne_def power_int_minus Let_def)
  then show ?thesis
    unfolding literal_095 literal_100 by (simp add: power_int_minus)
qed

lemma index_of_zero: "Math_floor (js_mul (literal 0) (literal 100)) = Finite 0"
  by (simp add: literal_0 literal_100 round64_def)

lemma js_add_NaN: "js_add NaN n = NaN"
  by simp

lemma zero_row_beyond: "arr_props (count_row (replicate 100 0)) (Finite 100) = None"
proof -
  have "array_index (Finite (real 100)) = Some 100"
    by (rule array_index_nat) simp
  then show ?thesis by (simp add: count_row_def array_of_def)
qed

lemma getGrid_x_one:
  "getGrid [\<lparr>sd_x = literal 1, sd_y = literal 0, sd_scope = LOCAL\<rparr>]
     = Inr (array_of ((replicate 100 (count_row (replicate 100 0)))
              [0 := arr_set (count_row (replicate 100 0)) (Finite 100) NaN]))"
proof -
  have get: "arr_props (count_grid (replicate 100 (replicate 100 0))) (Finite 0)
      = Some (count_row (replicate 100 0))"
    using zero_row_props [of 0] by simp
  have upd: "(count_grid (replicate 100 (replicate 100 0)))
        \<lparr>arr_props := (arr_props (count_grid (replicate 100 (replicate 100 0))))(Finite 0 \<mapsto> v)\<rparr>
      = array_of ((replicate 100 (count_row (replicate 100 0)))[0 := v])" for v
    using array_of_update [of 0 "replicate 100 (count_row (replicate 100 0))" v]
    by (simp add: count_grid_def)
  show ?thesis
    by (simp add: getGrid_def initial_grid bin_def index_of_one index_of_zero get increment_def
        zero_row_beyond upd)
qed

lemma getGrid_y_one:
  "getGrid [\<lparr>sd_x = literal 0, sd_y = literal 1, sd_scope = LOCAL\<rparr>] = Inl TypeError"
  using zero_row_props [of 100]
  by (simp add: getGrid_def initial_grid bin_def index_of_one index_of_zero)

lemma length_elements: "length (elements a) = arr_length a"
  by (simp add: elements_def)

lemma arr_length_count_row: "arr_length (count_row cs) = length cs"
  by (simp add: count_row_def array_of_def)

lemma arr_length_beyond:
  "arr_length (arr_set (count_row (replicate 100 0)) (Finite 100) NaN) = 101"
proof -
  have "array_index (Finite (real 100)) = Some 100"
    by (rule array_index_nat) simp
  then show ?thesis by (simp add: arr_set_def arr_length_count_row)
qed

lemma flatten_x_one:
  "length (flattenGrid (array_of ((replicate 100 (count_row (replicate 100 0)))
              [0 := arr_set (count_row (replicate 100 0)) (Finite 100) NaN]))) = 10001"
proof -
  let ?rows = "(replicate 100 (count_row (replicate 100 0)))
              [0 := arr_set (count_row (replicate 100 0)) (Finite 100) NaN]"
  have "length ?rows \<le> 2 ^ 32 - 1" by simp
  then have "flattenGrid (array_of ?rows) = concat (map elements ?rows)"
    by (rule flattenGrid_dense)
  moreover have "length (concat (map elements ?rows)) = sum_list (map arr_length ?rows)"
    by (simp add: length_concat comp_def length_elements)
  moreover have "sum_list (map arr_length ?rows) = 10001"
    by (simp add: map_update sum_list_update arr_length_beyond arr_length_count_row
        sum_list_replicate)
  ultimately show ?thesis by simp
qed

section \<open>Order of the points, and flattening\<close>

lemma forEach_fold:
  "forEach f ds s = fold (\<lambda>d r. case r of Inl e \<Rightarrow> Inl e | Inr g \<Rightarrow> f d g) ds (Inr s)"
proof -
  have stuck: "fold (\<lambda>d r. case r of Inl e \<Rightarrow> Inl e | Inr g \<Rightarrow> f d g) ds (Inl e) = Inl e" for ds e
    by (induction ds) simp_all
  show ?thesis
  proof (induction ds arbitrary: s)
    case Nil
    then show ?case by simp
  next
    case (Cons d ds)
    then show ?case by (cases "f d s") (simp_all add: stuck)
  qed
qed

lemma increment_commute:
  "increment (increment row a) b = increment (increment row b) a"
proof (cases "a = b")
  case True
  then show ?thesis by simp
next
  case False
  have len: "arr_length (increment (increment row a) b) = arr_length (increment (increment row b) a)"
    by (simp add: increment_def arr_set_def max.commute max.left_commute split: option.splits)
  have "arr_props (increment (increment row a) b) = arr_props (increment (increment row b) a)"
    using False by (auto simp: increment_def arr_set_def fun_upd_twist)
  with len show ?thesis by (simp add: increment_def arr_set_def)
qed

lemma bin_commute:
  fixes d1 d2 :: SessionData and g :: grid
  shows "(case bin d1 g of Inl e \<Rightarrow> Inl e | Inr g' \<Rightarrow> bin d2 g')
       = (case bin d2 g of Inl e \<Rightarrow> Inl e | Inr g' \<Rightarrow> bin d1 g')"
proof -
  define x1 where "x1 = Math_floor (js_mul (sd_x d1) (literal 100))"
  define y1 where "y1 = Math_floor (js_mul (sd_y d1) (literal 100))"
  define x2 where "x2 = Math_floor (js_mul (sd_x d2) (literal 100))"
  define y2 where "y2 = Math_floor (js_mul (sd_y d2) (literal 100))"
  have b1: "bin d1 h = (case arr_props h y1 of None \<Rightarrow> Inl TypeError
      | Some row \<Rightarrow> Inr (h\<lparr>arr_props := (arr_props h)(y1 \<mapsto> increment row x1)\<rparr>))" for h
    unfolding bin_def Let_def x1_def y1_def by (rule refl)
  have b2: "bin d2 h = (case arr_props h y2 of None \<Rightarrow> Inl TypeError
      | Some row \<Rightarrow> Inr (h\<lparr>arr_props := (arr_props h)(y2 \<mapsto> increment row x2)\<rparr>))" for h
    unfolding bin_def Let_def x2_def y2_def by (rule refl)
  show ?thesis
  proof (cases "y1 = y2")
    case True
    then show ?thesis
      unfolding b1 b2 by (simp add: increment_commute [of _ x1 x2] split: option.splits)
  next
    case False
    then show ?thesis
      unfolding b1 b2 by (auto simp: fun_upd_twist split: option.splits)
  qed
qed

lemma getGrid_mset:
  assumes "mset xs = mset ys"
  shows "getGrid xs = getGrid ys"
proof -
  let ?f = "\<lambda>d r. case r of Inl e \<Rightarrow> Inl e | Inr g \<Rightarrow> bin d g"
  have "?f d1 \<circ> ?f d2 = ?f d2 \<circ> ?f d1" for d1 d2
  proof
    fix r
    show "(?f d1 \<circ> ?f d2) r = (?f d2 \<circ> ?f d1) r"
      using bin_commute [of d2 d1] by (cases r) simp_all
  qed
  then have "fold ?f xs = fold ?f ys"
    using assms by (intro fold_multiset_equiv) simp_all
  then show ?thesis
    unfolding getGrid_def forEach_fold by simp
qed

lemma reshape_Nil: "reshape R [] = []"
  by (subst reshape.simps) simp

lemma reshape_concat:
  assumes "0 < R" and "\<forall>row\<in>set m. length row = R"
  shows "reshape R (concat m) = m"
  using assms(2)
proof (induction m)
  case Nil
  then show ?case by (simp add: reshape_Nil)
next
  case (Cons row m)
  have "row \<noteq> []" using Cons.prems assms(1) by auto
  then have "reshape R (concat (row # m)) = take R (row @ concat m) # reshape R (drop R (row @ concat m))"
    using assms(1) by (subst reshape.simps) simp
  then show ?case using Cons by simp
qed

lemma flattenGrid_matrix:
  assumes "length m \<le> 2 ^ 32 - 1" and "\<forall>row\<in>set m. length row \<le> 2 ^ 32 - 1"
  shows "flattenGrid (array_of (map array_of m)) = map Some (concat m)"
proof -
  have "map elements (map array_of m) = map (map Some) m"
    using assms(2) by (simp add: elements_array_of)
  moreover have "flattenGrid (array_of (map array_of m)) = concat (map elements (map array_of m))"
    using assms(1) by (intro flattenGrid_dense) simp
  ultimately show ?thesis by (simp only: map_concat)
qed

lemma sum_list_concat_rows: "sum_list (concat m) = sum_list (map sum_list m)"
  by (induction m) simp_all

lemma concat_replicate_rows: "concat (replicate n (replicate k x)) = replicate (n * k) x"
  by (induction n) (simp_all add: replicate_add)

lemma length_concat_square:
  assumes "length m = n" and "\<forall>row\<in>set m. length row = k"
  shows "length (concat m) = n * k"
proof -
  have "map length m = map (\<lambda>_. k) m" using assms(2) by simp
  then have "map length m = replicate n k"
    using assms(1) by (simp add: map_replicate_const)
  then show ?thesis by (simp add: length_concat sum_list_replicate)
qed

lemma flattenGrid_count_grid:
  assumes "length m = 100" and "\<forall>row\<in>set m. length row = 100"
  shows "flattenGrid (count_grid m) = map (\<lambda>c. Some (Finite (real c))) (concat m)"
proof -
  have "flattenGrid (array_of (map array_of (map (map (\<lambda>c. Finite (real c))) m)))
      = map Some (concat (map (map (\<lambda>c. Finite (real c))) m))"
    using assms by (intro flattenGrid_matrix) simp_all
  then show ?thesis
    by (simp add: count_grid_def count_row_def [abs_def] comp_def map_concat)
qed

lemma flattenGrid_number_grid:
  assumes "length m \<le> 2 ^ 32 - 1" and "\<forall>row\<in>set m. length row \<le> 2 ^ 32 - 1"
  shows "flattenGrid (number_grid m) = map (\<lambda>v. Some (Finite v)) (concat m)"
proof -
  have "flattenGrid (array_of (map array_of (map (map Finite) m)))
      = map Some (concat (map (map Finite) m))"
    using assms by (intro flattenGrid_matrix) simp_all
  then show ?thesis
    by (simp add: number_grid_def comp_def map_concat)
qed

section \<open>Evaluating the parameters\<close>

lemma literal_09: "literal 0.9 = Finite (8106479329266893 * 2 powi (- 53))"
  unfolding literal_def
  using round64_eval [of "- 1" "9 / 10" 8106479329266893]
  by (simp add: rne_def power_int_minus Let_def)

lemma literal_04: "literal 0.4 = Finite (7205759403792794 * 2 powi (- 54))"
  unfolding literal_def
  using round64_eval [of "- 2" "4 / 10" 7205759403792794]
  by (simp add: rne_def power_int_minus Let_def)

lemma literal_14: "literal 1.4 = Finite (6305039478318694 * 2 powi (- 52))"
  unfolding literal_def
  using round64_eval [of 0 "14 / 10" 6305039478318694]
  by (simp add: rne_def power_int_minus Let_def)

lemma literal_05: "literal 0.5 = Finite (1/2)"
  using literal_half by simp

lemma sub_09_05: "js_sub (literal 0.9) (literal 0.5) = literal 0.4"
proof -
  have "round64 (8106479329266893 * 2 powi (- 53) - 1 / 2) = Finite (7205759403792794 * 2 powi (- 54))"
    using round64_eval [of "- 2" "8106479329266893 * 2 powi (- 53) - 1 / 2" 7205759403792794]
    by (simp add: rne_def power_int_minus Let_def)
  then show ?thesis
    unfolding literal_09 literal_05 literal_04 js_sub_def by simp
qed

lemma add_09_05: "js_add (literal 0.9) (literal 0.5) = literal 1.4"
proof -
  have "round64 (8106479329266893 * 2 powi (- 53) + 1 / 2) = Finite (6305039478318694 * 2 powi (- 52))"
    using round64_eval [of 0 "8106479329266893 * 2 powi (- 53) + 1 / 2" 6305039478318694]
    by (simp add: rne_def power_int_minus Let_def)
  then show ?thesis
    unfolding literal_09 literal_05 literal_14 by simp
qed

lemma literal_14_beyond: "\<not> in_range 0 1 (literal 1.4)"
  unfolding literal_14 in_range_def by (simp add: power_int_minus)


lemma parseFloat_7: "parseFloat ''7'' = Finite 7"
  using round64_of_int [of 7]
  by (simp add: parseFloat_def read_sign_def is_space_def is_digit_def digits_value_def
      exponent_part_def Let_def)

lemma parseFloat_half: "parseFloat ''0.5'' = Finite (1/2)"
  using round64_dyadic [of 1 "- 1"]
  by (simp add: parseFloat_def read_sign_def is_space_def is_digit_def digits_value_def
      exponent_part_def Let_def power_int_minus)

lemma literal_5: "literal 5 = Finite 5"
  using literal_of_int [of 5] by simp

lemma literal_20: "literal 20 = Finite 20"
  using literal_of_int [of 20] by simp

text \<open>
  The point with \<open>x = 0.95\<close> and \<open>y = 0\<close> is counted in row \<open>0\<close>, column \<open>95\<close>, and
  nowhere else.
\<close>

lemma getGrid_scenario:
  "getGrid [\<lparr>sd_x = literal 0.95, sd_y = literal 0, sd_scope = LOCAL\<rparr>]
     = Inr (count_grid ((replicate 100 (replicate 100 0))[0 := (replicate 100 0)[95 := 1]]))"
proof -
  have get: "arr_props (count_grid (replicate 100 (replicate 100 0))) (Finite 0)
      = Some (count_row (replicate 100 0))"
    using zero_row_props [of 0] by simp
  have "increment (count_row (replicate 100 0)) (Finite (real 95))
      = count_row ((replicate 100 0)[95 := Suc (replicate 100 0 ! 95)])"
    by (rule increment_count_row) simp_all
  then have inc: "increment (count_row (replicate 100 0)) (Finite 95)
      = count_row ((replicate 100 0)[95 := 1])"
    by simp
  have upd: "(count_grid (replicate 100 (replicate 100 0)))
        \<lparr>arr_props := (arr_props (count_grid (replicate 100 (replicate 100 0))))(Finite 0 \<mapsto> v)\<rparr>
      = array_of ((replicate 100 (count_row (replicate 100 0)))[0 := v])" for v
    using array_of_update [of 0 "replicate 100 (count_row (replicate 100 0))" v]
    by (simp add: count_grid_def)
  show ?thesis
    using index_of_095
    by (simp add: getGrid_def initial_grid bin_def index_of_zero get inc upd)
      (simp add: count_grid_def map_update)
qed

section \<open>The claims\<close>

text \<open>
  Claim C1. For every sequence of sample points whose coordinates are doubles in
  \<open>[0, 1)\<close>, \<^verbatim>\<open>getGrid\<close> returns a grid of 100 rows of 100 non-negative integer counts
  whose cells sum to the length of the sequence, and the empty sequence gives the grid
  of zeros. The sequence is an array, so its length is below \<open>2 ^ 32\<close>; the counts are
  exact up to \<open>2 ^ 53\<close>, which is all the proof needs.
\<close>

theorem getGrid_counts:
  assumes "\<forall>d\<in>set data. in_unit (sd_x d) \<and> in_unit (sd_y d)" and "length data < 2 ^ 53"
  shows "(\<exists>m. getGrid data = Inr (count_grid m) \<and> length m = 100 \<and>
            (\<forall>row\<in>set m. length row = 100) \<and> sum_list (map sum_list m) = length data)
       \<and> getGrid [] = Inr (count_grid (replicate 100 (replicate 100 0)))"
  using getGrid_unit [OF assms] getGrid_Nil by simp

theorem getGrid_counts_witness:
  "in_unit (literal 0.95) \<and>
   (\<exists>m. getGrid [\<lparr>sd_x = literal 0.95, sd_y = literal 0.95, sd_scope = LOCAL\<rparr>] = Inr (count_grid m) \<and>
        length m = 100 \<and> (\<forall>row\<in>set m. length row = 100) \<and> sum_list (map sum_list m) = 1)"
  using getGrid_counts [of "[\<lparr>sd_x = literal 0.95, sd_y = literal 0.95, sd_scope = LOCAL\<rparr>]"]
    in_unit_095 by simp

text \<open>
  Claim C2. For all datasets and parameters, the second entry of \<^verbatim>\<open>marks\<close> is the
  density of the global dataset with weight \<open>0.2\<close>, the bandwidth of the state, stroke
  opacity \<^verbatim>\<open>opacity - skew\<close> and \<open>100\<close> thresholds, and the third is the density of
  the local dataset with fill and stroke opacity \<^verbatim>\<open>opacity + skew\<close>, the same bandwidth
  and thresholds. Nothing clamps the sums: with opacity \<open>0.9\<close> and skew \<open>0.5\<close> the global
  stroke opacity is the double \<open>0.4\<close> and the local opacities are the double \<open>1.4\<close>,
  which is beyond \<open>[0, 1]\<close>. The two equalities are those of binary64 arithmetic: the
  exact sum of the doubles \<open>0.9\<close> and \<open>0.5\<close> lies half way between two doubles and is
  rounded to the even one, which is the double \<open>1.4\<close>.
\<close>

theorem density_layers:
  "plot_effect str (s\<lparr>localData := Some l, globalData := Some g\<rparr>)
     = Some (marks str l g (s\<lparr>localData := Some l, globalData := Some g\<rparr>)) \<and>
   marks str l g s ! 1 = Some (global_density g s) \<and>
   marks str l g s ! 2 = Some (local_density l s) \<and>
   mark_data (global_density g s) = Some (Sessions g) \<and>
   mark_option (global_density g s) ''weight'' = Some (Val (Num (literal 0.2))) \<and>
   mark_option (global_density g s) ''bandwidth'' = Some (Val (Num (bandwidth s))) \<and>
   mark_option (global_density g s) ''strokeOpacity''
     = Some (Val (Num (js_sub (opacity s) (skew s)))) \<and>
   mark_option (global_density g s) ''thresholds'' = Some (Val (Num (literal 100))) \<and>
   mark_data (local_density l s) = Some (Sessions l) \<and>
   mark_option (local_density l s) ''fillOpacity''
     = Some (Val (Num (js_add (opacity s) (skew s)))) \<and>
   mark_option (local_density l s) ''strokeOpacity''
     = Some (Val (Num (js_add (opacity s) (skew s)))) \<and>
   mark_option (local_density l s) ''bandwidth'' = Some (Val (Num (bandwidth s))) \<and>
   mark_option (local_density l s) ''thresholds'' = Some (Val (Num (literal 100))) \<and>
   mark_option (global_density g (s\<lparr>opacity := literal 0.9, skew := literal 0.5\<rparr>)) ''strokeOpacity''
     = Some (Val (Num (literal 0.4))) \<and>
   mark_option (local_density l (s\<lparr>opacity := literal 0.9, skew := literal 0.5\<rparr>)) ''fillOpacity''
     = Some (Val (Num (literal 1.4))) \<and>
   mark_option (local_density l (s\<lparr>opacity := literal 0.9, skew := literal 0.5\<rparr>)) ''strokeOpacity''
     = Some (Val (Num (literal 1.4))) \<and>
   \<not> in_range 0 1 (literal 1.4)"
  using sub_09_05 add_09_05 literal_14_beyond
  by (simp add: plot_effect_def marks_def mark_option_def global_density_def local_density_def)

text \<open>
  Claim C3 says that every stored parameter is within its declared range at all times:
  that the initial values are, and that each setter clamps its input to the range. The
  initial opacity is \<open>5\<close>, beyond \<open>[0, 1]\<close>, and a setter stores what \<^verbatim>\<open>parseFloat\<close>
  gives: the input \<^verbatim>\<open>"7"\<close> is stored as \<open>7\<close> by each of the three.
\<close>

theorem setters_do_not_clamp:
  "opacity initialState = Finite 5 \<and>
   \<not> in_range 0 1 (opacity initialState) \<and>
   \<not> params_in_range initialState \<and>
   \<not> params_in_range (handleOpacityChange \<lparr>target_value = ''7''\<rparr> (initialState\<lparr>opacity := literal 0.5\<rparr>)) \<and>
   opacity (handleOpacityChange \<lparr>target_value = ''7''\<rparr> initialState) = Finite 7 \<and>
   \<not> in_range 0 1 (Finite 7) \<and>
   bandwidth (handleBandwidthChange \<lparr>target_value = ''7''\<rparr> initialState) = Finite 7 \<and>
   \<not> in_range 10 80 (Finite 7) \<and>
   skew (handleSkewChange \<lparr>target_value = ''7''\<rparr> initialState) = Finite 7 \<and>
   \<not> in_range (- 1) 1 (Finite 7)"
  by (simp add: initialState_def literal_5 in_range_def params_in_range_def
      handleOpacityChange_def handleBandwidthChange_def handleSkewChange_def parseFloat_7)

text \<open>
  Claim C3, amended. The initial bandwidth \<open>20\<close> is within \<open>[10, 80]\<close>, the initial skew
  \<open>0\<close> within \<open>[-1, 1]\<close> and \<^verbatim>\<open>displayPoints\<close> is initially false; each setter stores
  the number parsed from the value of the event as it is, and changes nothing else.
\<close>

theorem setters_store_parsed:
  "in_range 10 80 (bandwidth initialState) \<and>
   in_range (- 1) 1 (skew initialState) \<and>
   \<not> displayPoints initialState \<and>
   handleOpacityChange e s = s\<lparr>opacity := parseFloat (target_value e)\<rparr> \<and>
   handleBandwidthChange e s = s\<lparr>bandwidth := parseFloat (target_value e)\<rparr> \<and>
   handleSkewChange e s = s\<lparr>skew := parseFloat (target_value e)\<rparr>"
  by (simp add: initialState_def literal_20 literal_0 in_range_def handleOpacityChange_def
      handleBandwidthChange_def handleSkewChange_def)

text \<open>
  Claim C4 says that the indices computed for a point with coordinates in \<open>[0, 1]\<close> stay
  in \<open>0..99\<close>, and that a coordinate of exactly \<open>1.0\<close> gives no access out of range.
  \<^verbatim>\<open>getGrid\<close> has no such guard. For \<open>x = 1.0\<close> the column index is \<open>100\<close>: the row
  is written at index \<open>100\<close>, where it has nothing, so it grows to \<open>101\<close> entries and
  its last one is \<open>NaN\<close>. For \<open>y = 1.0\<close> the row index is \<open>100\<close>: the grid has no such
  row and the access throws a \<^verbatim>\<open>TypeError\<close>.
\<close>

theorem getGrid_boundary:
  "Math_floor (js_mul (literal 1) (literal 100)) = Finite 100 \<and>
   getGrid [\<lparr>sd_x = literal 1, sd_y = literal 0, sd_scope = LOCAL\<rparr>]
     = Inr (array_of ((replicate 100 (count_row (replicate 100 0)))
              [0 := arr_set (count_row (replicate 100 0)) (Finite 100) NaN])) \<and>
   arr_length (arr_set (count_row (replicate 100 0)) (Finite 100) NaN) = 101 \<and>
   arr_props (arr_set (count_row (replicate 100 0)) (Finite 100) NaN) (Finite 100) = Some NaN \<and>
   getGrid [\<lparr>sd_x = literal 0, sd_y = literal 1, sd_scope = LOCAL\<rparr>] = Inl TypeError"
  using index_of_one getGrid_x_one arr_length_beyond getGrid_y_one
  by (simp add: arr_set_def)

text \<open>
  Claim C5 says that flattening the grid of any sequence of points gives exactly
  \<open>10000\<close> integers. For the empty sequence it does, and they are zeros. For the one
  point with \<open>x = 1.0\<close> and \<open>y = 0\<close> the flattened grid has \<open>10001\<close> entries, and for
  the one point with \<open>y = 1.0\<close> there is no grid to flatten: the boundary is the one of
  claim C4.
\<close>

theorem flattenGrid_boundary:
  "(\<exists>g. getGrid [\<lparr>sd_x = literal 1, sd_y = literal 0, sd_scope = LOCAL\<rparr>] = Inr g \<and>
        length (flattenGrid g) = 10001) \<and>
   getGrid [\<lparr>sd_x = literal 0, sd_y = literal 1, sd_scope = LOCAL\<rparr>] = Inl TypeError \<and>
   (\<exists>g. getGrid [] = Inr g \<and> flattenGrid g = replicate 10000 (Some (Finite 0)))"
proof -
  have "flattenGrid (count_grid (replicate 100 (replicate 100 0)))
      = map (\<lambda>c. Some (Finite (real c))) (concat (replicate 100 (replicate 100 0)))"
    by (intro flattenGrid_count_grid) simp_all
  also have "concat (replicate 100 (replicate 100 (0::nat))) = replicate 10000 0"
    by (simp add: concat_replicate_rows)
  finally have "flattenGrid (count_grid (replicate 100 (replicate 100 0)))
      = replicate 10000 (Some (Finite 0))" by simp
  then show ?thesis
    using getGrid_x_one flatten_x_one getGrid_y_one getGrid_Nil by simp
qed

text \<open>
  Claim C6. Flattening is reversible given \<open>R\<close>: for a dense grid of \<open>R\<close> rows of \<open>R\<close>
  numbers (an array, so \<open>R\<close> is below \<open>2 ^ 32\<close>), cutting the flattened sequence into
  rows of length \<open>R\<close> gives back the rows of the grid. \<open>Some v\<close> is the value \<open>v\<close> as
  an element of the flattened array.
\<close>

theorem flatten_reshape:
  assumes "length m = R" and "\<forall>row\<in>set m. length row = R" and "R < 2 ^ 32"
  shows "reshape R (flattenGrid (array_of (map array_of m))) = map (map Some) m \<and>
         array_of (map (\<lambda>row. array_of (map the row))
           (reshape R (flattenGrid (array_of (map array_of m))))) = array_of (map array_of m)"
proof -
  have rows: "reshape R (flattenGrid (array_of (map array_of m))) = map (map Some) m"
  proof (cases "R = 0")
    case True
    then have "m = []" using assms(1) by simp
    then show ?thesis
      using flattenGrid_matrix [of "[]"] by (simp add: reshape_Nil)
  next
    case False
    have "flattenGrid (array_of (map array_of m)) = map Some (concat m)"
      using assms by (intro flattenGrid_matrix) simp_all
    also have "\<dots> = concat (map (map Some) m)"
      by (simp add: map_concat)
    finally show ?thesis
      using False assms(2) by (simp add: reshape_concat)
  qed
  have grid: "map (\<lambda>row. array_of (map the row)) (map (map Some) m) = map array_of m"
    by (simp add: comp_def)
  show ?thesis unfolding rows grid by (intro conjI refl)
qed

theorem flatten_reshape_witness:
  "length [[Finite 1, Finite 2], [Finite 3, Finite 4]] = 2 \<and> (2::nat) < 2 ^ 32 \<and>
   reshape 2 (flattenGrid (array_of (map array_of [[Finite 1, Finite 2], [Finite 3, Finite 4]])))
     = [[Some (Finite 1), Some (Finite 2)], [Some (Finite 3), Some (Finite 4)]]"
  using flatten_reshape [of "[[Finite 1, Finite 2], [Finite 3, Finite 4]]" 2]
  by simp

text \<open>
  Claim C7. \<^verbatim>\<open>getGrid\<close> is invariant under permutation of its input: two sequences
  with the same points, each as often in one as in the other, give the same result.
  This holds for all points, also those out of range, where the result is the same
  grid with the same extra properties, or the same exception.
\<close>

theorem getGrid_permutation:
  assumes "mset xs = mset ys"
  shows "getGrid xs = getGrid ys"
  using assms by (rule getGrid_mset)

theorem getGrid_permutation_witness:
  "mset [\<lparr>sd_x = literal 0.95, sd_y = literal 0, sd_scope = LOCAL\<rparr>,
         \<lparr>sd_x = literal 1, sd_y = literal 0.95, sd_scope = GLOBAL\<rparr>]
   = mset [\<lparr>sd_x = literal 1, sd_y = literal 0.95, sd_scope = GLOBAL\<rparr>,
           \<lparr>sd_x = literal 0.95, sd_y = literal 0, sd_scope = LOCAL\<rparr>] \<and>
   getGrid [\<lparr>sd_x = literal 0.95, sd_y = literal 0, sd_scope = LOCAL\<rparr>,
            \<lparr>sd_x = literal 1, sd_y = literal 0.95, sd_scope = GLOBAL\<rparr>]
   = getGrid [\<lparr>sd_x = literal 1, sd_y = literal 0.95, sd_scope = GLOBAL\<rparr>,
              \<lparr>sd_x = literal 0.95, sd_y = literal 0, sd_scope = LOCAL\<rparr>]"
  using getGrid_permutation
    [of "[\<lparr>sd_x = literal 0.95, sd_y = literal 0, sd_scope = LOCAL\<rparr>,
          \<lparr>sd_x = literal 1, sd_y = literal 0.95, sd_scope = GLOBAL\<rparr>]"
        "[\<lparr>sd_x = literal 1, sd_y = literal 0.95, sd_scope = GLOBAL\<rparr>,
          \<lparr>sd_x = literal 0.95, sd_y = literal 0, sd_scope = LOCAL\<rparr>]"]
  by (simp add: add.commute)

text \<open>
  Claim C8. For all datasets and parameters, the layers of the plot hold the point
  overlay (the dots of the local dataset, of radius \<open>1.5\<close>, fill opacity \<open>0.2\<close> and
  stroke opacity \<open>0.5\<close>) if and only if \<^verbatim>\<open>displayPoints\<close> is true, between the local
  density and the annotations; the other layers are the same either way. The check box
  toggles \<^verbatim>\<open>displayPoints\<close>, and the overlay with it.
\<close>

theorem point_overlay_iff:
  "layers (marks str l g s)
     = [Plot_frame, global_density g s, local_density l s]
       @ (if displayPoints s then [point_overlay l] else [])
       @ [emotion_text, emotion_dots str] \<and>
   marks str l g s ! 3 = (if displayPoints s then Some (point_overlay l) else None) \<and>
   (point_overlay l \<in> set (layers (marks str l g s)) \<longleftrightarrow> displayPoints s) \<and>
   (point_overlay l \<in> set (layers (marks str l g (togglePoints s))) \<longleftrightarrow> \<not> displayPoints s) \<and>
   filter (\<lambda>m. m \<noteq> point_overlay l) (layers (marks str l g s))
     = layers (marks str l g (s\<lparr>displayPoints := False\<rparr>)) \<and>
   mark_data (point_overlay l) = Some (Sessions l) \<and>
   mark_option (point_overlay l) ''r'' = Some (Val (Num (literal 1.5))) \<and>
   mark_option (point_overlay l) ''fillOpacity'' = Some (Val (Num (literal 0.2))) \<and>
   mark_option (point_overlay l) ''strokeOpacity'' = Some (Val (Num (literal 0.5)))"
proof -
  have ne: "point_overlay l \<noteq> Plot_frame" "point_overlay l \<noteq> global_density g s"
    "point_overlay l \<noteq> local_density l s" "point_overlay l \<noteq> emotion_text"
    "point_overlay l \<noteq> emotion_dots str"
    by (simp_all add: point_overlay_def global_density_def local_density_def emotion_text_def
        emotion_dots_def)
  have same: "global_density g (s\<lparr>displayPoints := False\<rparr>) = global_density g s"
    "local_density l (s\<lparr>displayPoints := False\<rparr>) = local_density l s"
    by (simp_all add: global_density_def local_density_def)
  have lay: "layers (marks str l g s)
     = [Plot_frame, global_density g s, local_density l s]
       @ (if displayPoints s then [point_overlay l] else [])
       @ [emotion_text, emotion_dots str]" for s
    by (simp add: layers_def marks_def)
  have opts: "mark_data (point_overlay l) = Some (Sessions l)"
    "mark_option (point_overlay l) ''r'' = Some (Val (Num (literal 1.5)))"
    "mark_option (point_overlay l) ''fillOpacity'' = Some (Val (Num (literal 0.2)))"
    "mark_option (point_overlay l) ''strokeOpacity'' = Some (Val (Num (literal 0.5)))"
    by (simp_all add: point_overlay_def mark_option_def)
  have mem: "point_overlay l \<in> set (layers (marks str l g s)) \<longleftrightarrow> displayPoints s" for s
    unfolding lay
    by (auto simp: point_overlay_def global_density_def local_density_def emotion_text_def
        emotion_dots_def)
  have tog: "point_overlay l \<in> set (layers (marks str l g (togglePoints s))) \<longleftrightarrow> \<not> displayPoints s"
    unfolding mem by (simp add: togglePoints_def)
  have fil: "filter (\<lambda>m. m \<noteq> point_overlay l) (layers (marks str l g s))
     = layers (marks str l g (s\<lparr>displayPoints := False\<rparr>))"
    unfolding lay same using ne by (auto simp: eq_commute [of _ "point_overlay l"])
  have third: "marks str l g s ! 3 = (if displayPoints s then Some (point_overlay l) else None)"
    by (simp add: marks_def)
  from lay [of s] third mem [of s] tog fil opts show ?thesis by simp
qed

text \<open>
  Claim C9. Each of the 9 entries of the emotion catalog has a colour, so the fill of
  the annotation dots, \<^verbatim>\<open>toRgb(d.color!)\<close>, is a string for every entry and never the
  \<^verbatim>\<open>TypeError\<close> of an absent colour; the field \<^verbatim>\<open>hsl\<close> is not read.
\<close>

theorem emotion_colors_defined:
  "length emotions = 9 \<and>
   list_all (\<lambda>d. \<exists>c. em_color d = Some c) emotions \<and>
   map (emotion_fill str) emotions =
     [Inr (Str (toRgb str (literal 255, literal 248, literal 77))),
      Inr (Str (toRgb str (literal 242, literal 136, literal 38))),
      Inr (Str (toRgb str (literal 210, literal 37, literal 25))),
      Inr (Str (toRgb str (literal 182, literal 18, literal 67))),
      Inr (Str (toRgb str (literal 239, literal 92, literal 180))),
      Inr (Str (toRgb str (literal 99, literal 26, literal 192))),
      Inr (Str (toRgb str (literal 43, literal 48, literal 170))),
      Inr (Str (toRgb str (literal 26, literal 179, literal 192))),
      Inr (Str (toRgb str (literal 128, literal 128, literal 128)))] \<and>
   mark_data (emotion_dots str) = Some (Emotions emotions) \<and>
   mark_option (emotion_dots str) ''fill'' = Some (Fn (emotion_fill str)) \<and>
   (\<forall>d h. emotion_fill str (d\<lparr>em_hsl := h\<rparr>) = emotion_fill str d)"
  by (simp add: emotions_def emotion_fill_def emotion_dots_def mark_option_def)

text \<open>
  Claim C10. Flattening preserves the total: the flattened sequence of a rectangular
  dense grid of finite numbers holds exactly the cells of the grid, row after row, so
  its sum is the sum of the sums of the rows. With the construction of the grid: for
  points with coordinates in \<open>[0, 1)\<close>, the flattened grid of \<^verbatim>\<open>getGrid\<close> holds
  \<open>10000\<close> counts whose sum is the number of points. The sums are those of the values,
  as real numbers.
\<close>

theorem flatten_sum:
  assumes "length m \<le> 2 ^ 32 - 1" and "\<forall>row\<in>set m. length row = c" and "c \<le> 2 ^ 32 - 1"
    and "\<forall>d\<in>set data. in_unit (sd_x d) \<and> in_unit (sd_y d)" and "length data < 2 ^ 53"
  shows "flattenGrid (number_grid m) = map (\<lambda>v. Some (Finite v)) (concat m) \<and>
         sum_list (map cell_value (flattenGrid (number_grid m))) = sum_list (map sum_list m) \<and>
         (\<exists>counts. getGrid data = Inr (count_grid counts) \<and>
            flattenGrid (count_grid counts) = map (\<lambda>c. Some (Finite (real c))) (concat counts) \<and>
            length (concat counts) = 10000 \<and>
            sum_list (concat counts) = length data \<and>
            sum_list (map cell_value (flattenGrid (count_grid counts))) = real (length data))"
proof -
  have v1: "map cell_value (map (\<lambda>v. Some (Finite v)) xs) = xs" for xs
    by (induction xs) (simp_all add: cell_value_def)
  have v2: "map cell_value (map (\<lambda>c. Some (Finite (real c))) cs) = map real cs" for cs
    by (induction cs) (simp_all add: cell_value_def)
  have a: "flattenGrid (number_grid m) = map (\<lambda>v. Some (Finite v)) (concat m)"
    using assms(1,2,3) by (intro flattenGrid_number_grid) simp_all
  have b: "sum_list (concat m) = sum_list (map sum_list m)"
    by (rule sum_list_concat_rows)
  from getGrid_unit [OF assms(4,5)] obtain counts
    where g: "getGrid data = Inr (count_grid counts)" and l: "length counts = 100"
      and r: "\<forall>row\<in>set counts. length row = 100"
      and t: "sum_list (map sum_list counts) = length data" by blast
  have f: "flattenGrid (count_grid counts) = map (\<lambda>c. Some (Finite (real c))) (concat counts)"
    using l r by (rule flattenGrid_count_grid)
  have n: "length (concat counts) = 10000"
    using length_concat_square [OF l r] by simp
  have s: "sum_list (concat counts) = length data"
    using t by (simp add: sum_list_concat_rows)
  have b': "sum_list (map cell_value (flattenGrid (number_grid m))) = sum_list (map sum_list m)"
    unfolding a v1 by (rule b)
  have "sum_list (map real cs) = real (sum_list cs)" for cs
    by (induction cs) simp_all
  then have s': "sum_list (map cell_value (flattenGrid (count_grid counts))) = real (length data)"
    unfolding f v2 s [symmetric] .
  from a b' g f n s s' show ?thesis by blast
qed

theorem flatten_sum_witness:
  "in_unit (literal 0.95) \<and>
   flattenGrid (number_grid [[1, 2], [3, 4]])
     = [Some (Finite 1), Some (Finite 2), Some (Finite 3), Some (Finite 4)] \<and>
   sum_list (map cell_value (flattenGrid (number_grid [[1, 2], [3, 4]]))) = 10 \<and>
   (\<exists>counts. getGrid [\<lparr>sd_x = literal 0.95, sd_y = literal 0.95, sd_scope = LOCAL\<rparr>]
        = Inr (count_grid counts) \<and>
      flattenGrid (count_grid counts) = map (\<lambda>c. Some (Finite (real c))) (concat counts) \<and>
      length (concat counts) = 10000 \<and> sum_list (concat counts) = 1 \<and>
      sum_list (map cell_value (flattenGrid (count_grid counts))) = 1)"
  using flatten_sum [of "[[1, 2], [3, 4]]" 2
      "[\<lparr>sd_x = literal 0.95, sd_y = literal 0.95, sd_scope = LOCAL\<rparr>]"] in_unit_095
  by (simp add: cell_value_def)

end
